theory Spec2Isabelle
  imports Main "HOL-Library.AList"
begin

section \<open>Values and records\<close>

text \<open>
  The adapters are generic in the record type; the values that flow through them are the
  values a YAML document holds, plus two that only the runtime produces: JavaScript's
  \<open>undefined\<close>, which is what reading a property that a value does not have yields,
  and the functions a value inherits from its prototype (\<open>constructor\<close>,
  \<open>toString\<close>, ...), known by their names. Numbers are restricted to integers. A
  nested object keeps its properties in the order \<open>Object.entries\<close> enumerates them.
\<close>

datatype jsval =
    Undefined
  | Null
  | Bool bool
  | Num int
  | Str string
  | Arr "jsval list"
  | Obj "(string \<times> jsval) list"
  | Function string

text \<open>
  An object at the top level, such as the \<open>data\<close> of a call or a stored mapping, is a
  finite mapping from its own property names to values. Equality of two such mappings
  is deep equality of the objects.
\<close>

type_synonym fields = "string \<rightharpoonup> jsval"

text \<open>
  \<open>Readable\<close> is what \<open>YAML.parse\<close> returns for a record file, cast without a check:
  a mapping for a file that holds one, but also \<open>null\<close> for an empty file, a scalar or
  a sequence. \<open>Writable\<close> is the object a caller submits.
\<close>

datatype readable =
    Mapping fields
  | NullValue
  | BoolValue bool
  | NumValue int
  | StrValue string
  | SeqValue "jsval list"

type_synonym writable = fields

text \<open>The decimal name of an array index.\<close>

fun indexKey :: "nat \<Rightarrow> string" where
  "indexKey n =
     (if n < 10 then [''0123456789'' ! n]
      else indexKey (n div 10) @ [''0123456789'' ! (n mod 10)])"

text \<open>
  The own enumerable properties of a value, which are what an object spread
  \<open>{ ...value }\<close> copies: the properties of a mapping, the indexed characters of a
  string, the indexed elements of a sequence, and none for \<open>null\<close>, a boolean or a
  number.
\<close>

fun ownProperties :: "readable \<Rightarrow> fields" where
  "ownProperties (Mapping r) = r"
| "ownProperties (StrValue s) =
     map_of (zip (map indexKey [0..<length s]) (map (\<lambda>c. Str [c]) s))"
| "ownProperties (SeqValue xs) = map_of (zip (map indexKey [0..<length xs]) xs)"
| "ownProperties v = Map.empty"

text \<open>The own properties a read finds: the enumerable ones and the \<open>length\<close> of a string or sequence.\<close>

fun ownProperty :: "readable \<Rightarrow> string \<Rightarrow> jsval option" where
  "ownProperty (StrValue s) key =
     (if key = ''length'' then Some (Num (int (length s))) else ownProperties (StrValue s) key)"
| "ownProperty (SeqValue xs) key =
     (if key = ''length'' then Some (Num (int (length xs))) else ownProperties (SeqValue xs) key)"
| "ownProperty v key = ownProperties v key"

section \<open>The file system under the database path\<close>

text \<open>
  \<open>recordPath table id\<close> is \<open>databasePath/table/id.yaml\<close>. The model keeps the two
  levels below the database path apart: a table name maps to its directory when that
  directory exists, and a directory lists its files, name and content, in the order
  \<open>readdirSync\<close> enumerates them. Table names and ids are single path components.
  Paths occur in error messages only and are written for the default database path,
  relative to the working directory.
  The content of a file is of an arbitrary type \<open>'c\<close>; \<open>YAML.stringify\<close> and
  \<open>YAML.parse\<close> belong to an external library and are taken as a pair of functions,
  \<open>parse\<close> returning \<open>None\<close> where the library throws.
\<close>

type_synonym 'c directory = "(string \<times> 'c) list"
type_synonym 'c filesystem = "string \<rightharpoonup> 'c directory"

record 'c yaml =
  stringify :: "fields \<Rightarrow> 'c"
  parse :: "'c \<Rightarrow> readable option"

datatype error =
    NotFound string
  | ParseFailure string
  | NoSuchDirectory string
  | TypeError

definition tablePath :: "string \<Rightarrow> string" where
  "tablePath name = ''database/'' @ name"

definition recordFile :: "string \<Rightarrow> string" where
  "recordFile ident = ident @ ''.yaml''"

definition recordPath :: "string \<Rightarrow> string \<Rightarrow> string" where
  "recordPath table ident = tablePath table @ ''/'' @ recordFile ident"

text \<open>\<open>fs.existsSync (recordPath table id)\<close>\<close>

definition existsRecord :: "'c filesystem \<Rightarrow> string \<Rightarrow> string \<Rightarrow> bool" where
  "existsRecord fs table ident =
     (case fs table of
        None \<Rightarrow> False
      | Some dir \<Rightarrow> map_of dir (recordFile ident) \<noteq> None)"

text \<open>
  \<open>writeFile\<close> creates or replaces one file of an existing directory; it is rejected
  when the directory does not exist. \<open>unlinkSync\<close> removes the file.
\<close>

definition writeFile :: "'c filesystem \<Rightarrow> string \<Rightarrow> string \<Rightarrow> 'c \<Rightarrow> error + 'c filesystem" where
  "writeFile fs table file content =
     (case fs table of
        None \<Rightarrow> Inl (NoSuchDirectory (tablePath table))
      | Some dir \<Rightarrow> Inr (fs(table \<mapsto> AList.update file content dir)))"

definition unlinkSync :: "'c filesystem \<Rightarrow> string \<Rightarrow> string \<Rightarrow> 'c filesystem" where
  "unlinkSync fs table file =
     (case fs table of
        None \<Rightarrow> fs
      | Some dir \<Rightarrow> fs(table \<mapsto> AList.delete file dir))"

definition mkdirSync :: "'c filesystem \<Rightarrow> string \<Rightarrow> 'c filesystem" where
  "mkdirSync fs table = (case fs table of None \<Rightarrow> fs(table \<mapsto> []) | Some dir \<Rightarrow> fs)"

section \<open>The file-backed adapter\<close>

definition readRecord :: "'c yaml \<Rightarrow> 'c filesystem \<Rightarrow> string \<Rightarrow> string \<Rightarrow> error + readable" where
  "readRecord y fs table ident =
     (if \<not> existsRecord fs table ident then Inl (NotFound (recordPath table ident))
      else
        (case fs table of
           None \<Rightarrow> Inl (NotFound (recordPath table ident))
         | Some dir \<Rightarrow>
             (case map_of dir (recordFile ident) of
                None \<Rightarrow> Inl (NotFound (recordPath table ident))
              | Some file \<Rightarrow>
                  (case parse y file of
                     None \<Rightarrow> Inl (ParseFailure (recordPath table ident))
                   | Some r \<Rightarrow> Inr r))))"

definition yaml_find :: "'c yaml \<Rightarrow> 'c filesystem \<Rightarrow> string \<Rightarrow> string \<Rightarrow> error + readable" where
  "yaml_find y fs table ident = readRecord y fs table ident"

text \<open>
  \<open>create\<close>: \<open>generateId\<close> is an external random generator, so the id it returns is an
  argument. The record is \<open>{ id, ...props.data }\<close>: the properties of \<open>data\<close> are
  copied over the generated id. The operation returns its outcome and the file system
  it leaves behind.
\<close>

definition yaml_create ::
  "'c yaml \<Rightarrow> 'c filesystem \<Rightarrow> string \<Rightarrow> string \<Rightarrow> writable \<Rightarrow> (error + readable) \<times> 'c filesystem" where
  "yaml_create y fs generateId table data =
     (let fs1 = (if fs table = None then mkdirSync fs table else fs);
          ident = generateId;
          record = [''id'' \<mapsto> Str ident] ++ data
      in case writeFile fs1 table (recordFile ident) (stringify y record) of
           Inl e \<Rightarrow> (Inl e, fs1)
         | Inr fs2 \<Rightarrow> (Inr (Mapping record), fs2))"

text \<open>
  \<open>update\<close>: read the record, spread \<open>data\<close> over it, write the result to the same
  file. \<open>{ ...record, ...props.data }\<close> copies the own properties of the stored value
  and then every own property of \<open>data\<close>, the \<open>id\<close> among them. A failing read
  leaves before anything is written.
\<close>

definition yaml_update ::
  "'c yaml \<Rightarrow> 'c filesystem \<Rightarrow> string \<Rightarrow> string \<Rightarrow> writable \<Rightarrow> (error + readable) \<times> 'c filesystem" where
  "yaml_update y fs table ident data =
     (case readRecord y fs table ident of
        Inl e \<Rightarrow> (Inl e, fs)
      | Inr record \<Rightarrow>
          (let updatedRecord = (Map.empty ++ ownProperties record) ++ data
           in case writeFile fs table (recordFile ident) (stringify y updatedRecord) of
                Inl e \<Rightarrow> (Inl e, fs)
              | Inr fs' \<Rightarrow> (Inr (Mapping updatedRecord), fs')))"

text \<open>
  \<open>remove\<close>: read the record, check the file once more, unlink it and return
  \<open>{ id, ...data }\<close>, the own properties of the stored value copied over the requested
  id.
\<close>

definition yaml_remove ::
  "'c yaml \<Rightarrow> 'c filesystem \<Rightarrow> string \<Rightarrow> string \<Rightarrow> (error + readable) \<times> 'c filesystem" where
  "yaml_remove y fs table ident =
     (case readRecord y fs table ident of
        Inl e \<Rightarrow> (Inl e, fs)
      | Inr data \<Rightarrow>
          (if \<not> existsRecord fs table ident then (Inl (NotFound (recordPath table ident)), fs)
           else (Inr (Mapping ([''id'' \<mapsto> Str ident] ++ ownProperties data)),
                 unlinkSync fs table (recordFile ident))))"

section \<open>The query language\<close>

text \<open>
  A query follows the declared type \<open>Query\<close>: the four directives \<open>$limit\<close>,
  \<open>$skip\<close>, \<open>$sort\<close> and \<open>$select\<close>, each optional, and the remaining properties,
  which \<open>list\<close> collects as \<open>filters\<close>. A filter value is a plain value or an object
  of operators. The declared type \<open>Operators\<close> lists \<open>$or\<close> and \<open>$and\<close>
  among the operators of a field, the README writes them at the top of a query; either
  way they are properties like any other, holding an array of sub-queries, and at the
  top of a query they are entries of \<open>filters\<close>. \<open>$sort\<close> keeps its keys in the
  order \<open>Object.keys\<close> enumerates them, since only the first one is used.
\<close>

record query =
  q_limit :: "int option"
  q_skip :: "int option"
  q_sort :: "(string \<times> int) list option"
  q_select :: "string list option"
  filters :: "(string \<times> jsval) list"

text \<open>
  What the host language and its engine provide is taken as given: the operators that
  coerce their operands (\<open>!=\<close>, \<open><\<close>, \<open><=\<close>, \<open>>\<close>, \<open>>=\<close>), \<open>String(v)\<close> and
  \<open>toLowerCase\<close>; \<open>inherited\<close>, the value the prototype chain of a value gives for a
  name that is not among its own properties (a function for a name such as
  \<open>constructor\<close>, \<open>undefined\<close> for a name no prototype has); and \<open>arraySort\<close>, the
  order in which the engine's \<open>Array.prototype.sort\<close> leaves two or more elements
  when the comparator is not a consistent ordering of them, which the language leaves
  to the implementation.
\<close>

record js_ops =
  op_ne :: "jsval \<Rightarrow> jsval \<Rightarrow> bool"
  op_lt :: "jsval \<Rightarrow> jsval \<Rightarrow> bool"
  op_lte :: "jsval \<Rightarrow> jsval \<Rightarrow> bool"
  op_gt :: "jsval \<Rightarrow> jsval \<Rightarrow> bool"
  op_gte :: "jsval \<Rightarrow> jsval \<Rightarrow> bool"
  toStringJs :: "jsval \<Rightarrow> string"
  toLowerCase :: "string \<Rightarrow> string"
  inherited :: "readable \<Rightarrow> string \<Rightarrow> jsval"
  arraySort :: "(readable \<Rightarrow> readable \<Rightarrow> int) \<Rightarrow> readable list \<Rightarrow> readable list"

text \<open>
  \<open>record[key]\<close>: an own property if there is one, what the prototype chain gives
  otherwise. Reading a property of \<open>null\<close> throws a \<open>TypeError\<close>.
\<close>

definition propertyOf :: "js_ops \<Rightarrow> readable \<Rightarrow> string \<Rightarrow> jsval" where
  "propertyOf js record key =
     (case ownProperty record key of None \<Rightarrow> inherited js record key | Some v \<Rightarrow> v)"

definition readProperty :: "js_ops \<Rightarrow> readable \<Rightarrow> string \<Rightarrow> error + jsval" where
  "readProperty js record key =
     (case record of NullValue \<Rightarrow> Inl TypeError | _ \<Rightarrow> Inr (propertyOf js record key))"

text \<open>
  \<open>a === b\<close> and the comparison \<open>Array.prototype.includes\<close> makes. On primitive
  values both compare kind and value, and a function of the runtime is identical to
  itself. An object or array is identical to itself only; the values of a record are
  parsed afresh from its file, so none of them is identical to an object or array of
  the query.
\<close>

fun strict_eq :: "jsval \<Rightarrow> jsval \<Rightarrow> bool" where
  "strict_eq (Arr xs) b = False"
| "strict_eq (Obj ps) b = False"
| "strict_eq a b = (a = b)"

fun isArray :: "jsval \<Rightarrow> bool" where
  "isArray (Arr xs) = True"
| "isArray v = False"

fun arrayIncludes :: "jsval \<Rightarrow> jsval \<Rightarrow> bool" where
  "arrayIncludes (Arr xs) v = list_ex (\<lambda>x. strict_eq x v) xs"
| "arrayIncludes a v = False"

text \<open>\<open>typeof value === 'object' && value !== null\<close>\<close>

fun isObject :: "jsval \<Rightarrow> bool" where
  "isObject (Arr xs) = True"
| "isObject (Obj ps) = True"
| "isObject v = False"

text \<open>\<open>Object.entries\<close>: the properties of an object, the indexed elements of an array.\<close>

fun entries :: "jsval \<Rightarrow> (string \<times> jsval) list" where
  "entries (Obj ps) = ps"
| "entries (Arr xs) = zip (map indexKey [0..<length xs]) xs"
| "entries v = []"

text \<open>\<open>s.includes(sub)\<close> on strings.\<close>

fun includesString :: "string \<Rightarrow> string \<Rightarrow> bool" where
  "includesString [] sub = (sub = [])"
| "includesString (c # cs) sub = (take (length sub) (c # cs) = sub \<or> includesString cs sub)"

text \<open>The \<open>switch\<close> over the operators of one field.\<close>

definition operatorHolds :: "js_ops \<Rightarrow> string \<Rightarrow> jsval \<Rightarrow> jsval \<Rightarrow> bool" where
  "operatorHolds js op recordValue opValue =
     (if op = ''$ne'' then op_ne js recordValue opValue
      else if op = ''$in'' then isArray opValue \<and> arrayIncludes opValue recordValue
      else if op = ''$nin'' then isArray opValue \<and> \<not> arrayIncludes opValue recordValue
      else if op = ''$lt'' then op_lt js recordValue opValue
      else if op = ''$lte'' then op_lte js recordValue opValue
      else if op = ''$gt'' then op_gt js recordValue opValue
      else if op = ''$gte'' then op_gte js recordValue opValue
      else if op = ''$search'' then
        (case recordValue of
           Str s \<Rightarrow> includesString (toLowerCase js s) (toLowerCase js (toStringJs js opValue))
         | _ \<Rightarrow> False)
      else True)"

text \<open>
  The callback of \<open>Object.entries(filters).every\<close> for one record: it reads
  \<open>record[key]\<close> first, which throws for a record that is \<open>null\<close>.
\<close>

definition fieldHolds :: "js_ops \<Rightarrow> readable \<Rightarrow> string \<times> jsval \<Rightarrow> error + bool" where
  "fieldHolds js record entry =
     (let key = fst entry; value = snd entry
      in case readProperty js record key of
           Inl e \<Rightarrow> Inl e
         | Inr recordValue \<Rightarrow>
             Inr (if isObject value
                  then list_all (\<lambda>e. operatorHolds js (fst e) recordValue (snd e)) (entries value)
                  else strict_eq recordValue value))"

text \<open>
  \<open>Array.prototype.every\<close> and \<open>Array.prototype.filter\<close> with a callback that may
  throw: \<open>every\<close> stops at the first element for which the callback is false, and an
  exception of the callback ends either loop.
\<close>

fun everyEntry :: "('a \<Rightarrow> error + bool) \<Rightarrow> 'a list \<Rightarrow> error + bool" where
  "everyEntry p [] = Inr True"
| "everyEntry p (x # xs) =
     (case p x of
        Inl e \<Rightarrow> Inl e
      | Inr holds \<Rightarrow> if holds then everyEntry p xs else Inr False)"

fun filterRecords :: "('a \<Rightarrow> error + bool) \<Rightarrow> 'a list \<Rightarrow> error + 'a list" where
  "filterRecords p [] = Inr []"
| "filterRecords p (x # xs) =
     (case p x of
        Inl e \<Rightarrow> Inl e
      | Inr keep \<Rightarrow>
          (case filterRecords p xs of
             Inl e \<Rightarrow> Inl e
           | Inr ys \<Rightarrow> Inr (if keep then x # ys else ys)))"

definition matches :: "js_ops \<Rightarrow> (string \<times> jsval) list \<Rightarrow> readable \<Rightarrow> error + bool" where
  "matches js fltrs record = everyEntry (fieldHolds js record) fltrs"

definition applyFilters :: "js_ops \<Rightarrow> query \<Rightarrow> readable list \<Rightarrow> error + readable list" where
  "applyFilters js q records =
     (if length (filters q) > 0 then filterRecords (matches js (filters q)) records
      else Inr records)"

text \<open>
  Sorting. The comparator looks at one key of its two arguments, and throws for an
  argument that is \<open>null\<close>. The language fixes the result of \<open>Array.prototype.sort\<close>
  when the comparator is a consistent ordering of the elements (\<open>consistentOn\<close>, its
  five conditions): the elements in ascending order, equal ones in their original
  order, which is what the stable insertion sort \<open>sortBy\<close> computes. Otherwise the
  order is the engine's. A sort of fewer than two elements calls the comparator never;
  a sort of two or more compares every element at least once, so it ends with the
  exception when one of them is \<open>null\<close>.
\<close>

definition compareRecords :: "js_ops \<Rightarrow> string \<Rightarrow> int \<Rightarrow> readable \<Rightarrow> readable \<Rightarrow> int" where
  "compareRecords js key direction a b =
     (if op_lt js (propertyOf js a key) (propertyOf js b key) then - 1 * direction
      else if op_gt js (propertyOf js a key) (propertyOf js b key) then 1 * direction
      else 0)"

definition consistentOn :: "('a \<Rightarrow> 'a \<Rightarrow> int) \<Rightarrow> 'a list \<Rightarrow> bool" where
  "consistentOn cmp xs =
     list_all (\<lambda>a. cmp a a = 0 \<and>
       list_all (\<lambda>b. (if cmp a b = 0 then cmp b a = 0 else True) \<and>
         list_all (\<lambda>c.
           (if cmp a b = 0 \<and> cmp b c = 0 then cmp a c = 0 else True) \<and>
           (if cmp a b < 0 \<and> cmp b c < 0 then cmp a c < 0 else True) \<and>
           (if cmp a b > 0 \<and> cmp b c > 0 then cmp a c > 0 else True)) xs) xs) xs"

fun insertBy :: "('a \<Rightarrow> 'a \<Rightarrow> int) \<Rightarrow> 'a \<Rightarrow> 'a list \<Rightarrow> 'a list" where
  "insertBy cmp x [] = [x]"
| "insertBy cmp x (y # ys) = (if cmp x y \<le> 0 then x # y # ys else y # insertBy cmp x ys)"

definition sortBy :: "('a \<Rightarrow> 'a \<Rightarrow> int) \<Rightarrow> 'a list \<Rightarrow> 'a list" where
  "sortBy cmp xs = foldr (insertBy cmp) xs []"

fun isNull :: "readable \<Rightarrow> bool" where
  "isNull NullValue = True"
| "isNull v = False"

definition sortRecords ::
  "js_ops \<Rightarrow> (readable \<Rightarrow> readable \<Rightarrow> int) \<Rightarrow> readable list \<Rightarrow> error + readable list" where
  "sortRecords js cmp records =
     (if length records < 2 then Inr records
      else if list_ex isNull records then Inl TypeError
      else if consistentOn cmp records then Inr (sortBy cmp records)
      else Inr (arraySort js cmp records))"

definition applySorting :: "js_ops \<Rightarrow> query \<Rightarrow> readable list \<Rightarrow> error + readable list" where
  "applySorting js q records =
     (case q_sort q of
        None \<Rightarrow> Inr records
      | Some srt \<Rightarrow>
          (case srt of
             [] \<Rightarrow> Inr records
           | (key, d) # rest \<Rightarrow>
               (let direction = (if d = 1 then 1 else - 1)
                in sortRecords js (compareRecords js key direction) records)))"

text \<open>
  \<open>xs.slice(start, stop)\<close> on integers: a negative bound counts from the end, and both
  bounds are clamped to the sequence.
\<close>

definition js_slice :: "'a list \<Rightarrow> int \<Rightarrow> int \<Rightarrow> 'a list" where
  "js_slice xs start stop =
     (let len = int (length xs);
          k = (if start < 0 then max (len + start) 0 else min start len);
          final = (if stop < 0 then max (len + stop) 0 else min stop len)
      in take (nat (final - k)) (drop (nat k) xs))"

text \<open>\<open>$skip || 0\<close> and \<open>$limit || records.length\<close>: an absent directive and a zero are both falsy.\<close>

definition applyPagination :: "query \<Rightarrow> readable list \<Rightarrow> readable list" where
  "applyPagination q records =
     (let skip = (case q_skip q of None \<Rightarrow> 0 | Some n \<Rightarrow> if n = 0 then 0 else n);
          limit = (case q_limit q of
                     None \<Rightarrow> int (length records)
                   | Some n \<Rightarrow> if n = 0 then int (length records) else n)
      in js_slice records skip (skip + limit))"

text \<open>
  The callback of the projection. The line that declares \<open>selectedRecord\<close> ends
  without a semicolon and the next line of code starts with a parenthesis, so the two
  are one expression: \<open>{ id: record.id }($select).forEach(...)\<close>. The object
  literal is built, which reads \<open>record.id\<close>, and is then called as a function, which
  throws a \<open>TypeError\<close>; no field is copied and the callback never returns.
\<close>

definition selectRecord :: "js_ops \<Rightarrow> string list \<Rightarrow> readable \<Rightarrow> error + readable" where
  "selectRecord js sel record =
     (case readProperty js record ''id'' of
        Inl e \<Rightarrow> Inl e
      | Inr ident \<Rightarrow> Inl TypeError)"

text \<open>\<open>Array.prototype.map\<close> with a callback that may throw.\<close>

fun mapRecords :: "('a \<Rightarrow> error + 'b) \<Rightarrow> 'a list \<Rightarrow> error + 'b list" where
  "mapRecords f [] = Inr []"
| "mapRecords f (x # xs) =
     (case f x of
        Inl e \<Rightarrow> Inl e
      | Inr y \<Rightarrow> (case mapRecords f xs of Inl e \<Rightarrow> Inl e | Inr ys \<Rightarrow> Inr (y # ys)))"

definition applyProjection :: "js_ops \<Rightarrow> query \<Rightarrow> readable list \<Rightarrow> error + readable list" where
  "applyProjection js q records =
     (case q_select q of
        None \<Rightarrow> Inr records
      | Some sel \<Rightarrow> mapRecords (selectRecord js sel) records)"

text \<open>\<open>file.endsWith(suffix)\<close>\<close>

definition endsWith :: "string \<Rightarrow> string \<Rightarrow> bool" where
  "endsWith file suffix =
     (length suffix \<le> length file \<and> drop (length file - length suffix) file = suffix)"

text \<open>
  The loop of \<open>list\<close> over the directory: every file named \<open>*.yaml\<close> is read through
  \<open>readRecord\<close>; a record that cannot be read is logged and skipped.
\<close>

fun readAll :: "'c yaml \<Rightarrow> 'c filesystem \<Rightarrow> string \<Rightarrow> string list \<Rightarrow> readable list" where
  "readAll y fs table [] = []"
| "readAll y fs table (file # files) =
     (if endsWith file ''.yaml''
      then (case readRecord y fs table (js_slice file 0 (- 5)) of
              Inl e \<Rightarrow> readAll y fs table files
            | Inr record \<Rightarrow> record # readAll y fs table files)
      else readAll y fs table files)"

definition yaml_list ::
  "js_ops \<Rightarrow> 'c yaml \<Rightarrow> 'c filesystem \<Rightarrow> string \<Rightarrow> query option \<Rightarrow> error + readable list" where
  "yaml_list js y fs table qry =
     (case fs table of
        None \<Rightarrow> Inr []
      | Some dir \<Rightarrow>
          (let records = readAll y fs table (map fst dir)
           in case qry of
                None \<Rightarrow> Inr records
              | Some q \<Rightarrow>
                  (case applyFilters js q records of
                     Inl e \<Rightarrow> Inl e
                   | Inr filtered \<Rightarrow>
                       (case applySorting js q filtered of
                          Inl e \<Rightarrow> Inl e
                        | Inr ordered \<Rightarrow>
                            applyProjection js q (applyPagination q ordered)))))"

section \<open>The serializing write gate\<close>

text \<open>
  \<open>Mutex\<close> keeps one promise, the tail of a chain. A promise is modelled by the run
  that settles it: started on a store, it runs what is chained before it, then its own
  part, and yields its settlement together with the store at that moment. An
  operation \<open>fn\<close> is a function from \<open>unit\<close> to such a promise.
\<close>

datatype ('e, 'a) settled = Fulfilled 'a | Rejected 'e

type_synonym ('s, 'e, 'a) promise = "'s \<Rightarrow> ('e, 'a) settled \<times> 's"

text \<open>\<open>Promise.resolve()\<close> is fulfilled with \<open>undefined\<close>, written \<open>None\<close>.\<close>

definition promiseResolve :: "('s, 'e, 'a option) promise" where
  "promiseResolve = (\<lambda>s. (Fulfilled None, s))"

text \<open>\<open>p.then(f)\<close>: \<open>f\<close> runs once \<open>p\<close> is fulfilled; a rejection of \<open>p\<close> passes through.\<close>

definition promiseThen ::
  "('s, 'e, 'a) promise \<Rightarrow> ('a \<Rightarrow> ('s, 'e, 'b) promise) \<Rightarrow> ('s, 'e, 'b) promise" where
  "promiseThen p f =
     (\<lambda>s. case p s of
            (Fulfilled v, s') \<Rightarrow> f v s'
          | (Rejected e, s') \<Rightarrow> (Rejected e, s'))"

text \<open>
  \<open>p.catch(h)\<close>: a rejection of \<open>p\<close> is handled by \<open>h\<close>, whose result fulfils the new
  promise; a fulfilment passes through.
\<close>

definition promiseCatch ::
  "('s, 'e, 'a) promise \<Rightarrow> ('e \<Rightarrow> 'a option) \<Rightarrow> ('s, 'e, 'a option) promise" where
  "promiseCatch p h =
     (\<lambda>s. case p s of
            (Fulfilled v, s') \<Rightarrow> (Fulfilled (Some v), s')
          | (Rejected e, s') \<Rightarrow> (Fulfilled (h e), s'))"

record ('s, 'e, 'a) mutex =
  promise :: "('s, 'e, 'a option) promise"

definition newMutex :: "('s, 'e, 'a) mutex" where
  "newMutex = \<lparr>promise = promiseResolve\<rparr>"

text \<open>\<open>run\<close> returns the handle \<open>result\<close> and leaves the gate with its new tail.\<close>

definition run ::
  "('s, 'e, 'a) mutex \<Rightarrow> (unit \<Rightarrow> ('s, 'e, 'a) promise) \<Rightarrow>
     ('s, 'e, 'a) promise \<times> ('s, 'e, 'a) mutex" where
  "run m fn =
     (let result = promiseThen (promise m) (\<lambda>v. fn ())
      in (result, m\<lparr>promise := promiseCatch result (\<lambda>e. None)\<rparr>))"

text \<open>A sequence of calls of \<open>run\<close> on one gate, with the handles in the order of the calls.\<close>

fun runAll ::
  "('s, 'e, 'a) mutex \<Rightarrow> (unit \<Rightarrow> ('s, 'e, 'a) promise) list \<Rightarrow>
     ('s, 'e, 'a) promise list \<times> ('s, 'e, 'a) mutex" where
  "runAll m [] = ([], m)"
| "runAll m (fn # fns) =
     (case run m fn of
        (result, m') \<Rightarrow> (case runAll m' fns of (results, m'') \<Rightarrow> (result # results, m'')))"

text \<open>
  The contract of the gate, in the words of its specification: the store once each
  operation of a sequence, in order, has run until it settled, fulfilled or rejected.
\<close>

fun settledStore :: "'s \<Rightarrow> (unit \<Rightarrow> ('s, 'e, 'a) promise) list \<Rightarrow> 's" where
  "settledStore s [] = s"
| "settledStore s (fn # fns) = settledStore (snd (fn () s)) fns"

section \<open>Instances for evaluation\<close>

text \<open>
  An assignment of the host operations, for evaluating the operations on concrete
  inputs. \<open>String(v)\<close>, \<open>==\<close> and the order follow the language on \<open>undefined\<close>,
  \<open>null\<close>, booleans, integers, strings, and arrays and objects of these: two strings
  are compared as strings, character by character; in every other case both operands
  are converted to numbers. A string converts to a number when it is an integer
  literal, with optional sign and surrounding blanks, or empty; a string that holds
  another numeric literal (a fraction, an exponent, \<open>Infinity\<close>, a hexadecimal,
  octal or binary number) counts as not a number here. Characters are single bytes,
  and \<open>toLowerCase\<close> lowers the letters A to Z.
\<close>

fun joinComma :: "string list \<Rightarrow> string" where
  "joinComma [] = []"
| "joinComma [s] = s"
| "joinComma (s # t # ss) = s @ '','' @ joinComma (t # ss)"

definition showInt :: "int \<Rightarrow> string" where
  "showInt n = (if n < 0 then CHR ''-'' # indexKey (nat (- n)) else indexKey (nat n))"

fun asString :: "jsval \<Rightarrow> string" and elementStrings :: "jsval list \<Rightarrow> string list" where
  "asString Undefined = ''undefined''"
| "asString Null = ''null''"
| "asString (Bool b) = (if b then ''true'' else ''false'')"
| "asString (Num n) = showInt n"
| "asString (Str s) = s"
| "asString (Arr xs) = joinComma (elementStrings xs)"
| "asString (Obj ps) = ''[object Object]''"
| "asString (Function f) = ''function '' @ f @ ''() { [native code] }''"
| "elementStrings [] = []"
| "elementStrings (x # xs) =
     (case x of Undefined \<Rightarrow> [] | Null \<Rightarrow> [] | _ \<Rightarrow> asString x) # elementStrings xs"

definition isSpace :: "char \<Rightarrow> bool" where
  "isSpace c = (c \<in> set [CHR '' '', CHR 0x09, CHR 0x0A, CHR 0x0B, CHR 0x0C, CHR 0x0D])"

definition trim :: "string \<Rightarrow> string" where
  "trim s = rev (dropWhile isSpace (rev (dropWhile isSpace s)))"

definition isDigit :: "char \<Rightarrow> bool" where
  "isDigit c = (c \<in> set ''0123456789'')"

definition digitsValue :: "string \<Rightarrow> nat" where
  "digitsValue ds = foldl (\<lambda>n c. 10 * n + (of_char c - 48)) 0 ds"

definition unsignedLiteral :: "string \<Rightarrow> int option" where
  "unsignedLiteral ds =
     (if ds \<noteq> [] \<and> list_all isDigit ds then Some (int (digitsValue ds)) else None)"

definition integerLiteral :: "string \<Rightarrow> int option" where
  "integerLiteral s =
     (case trim s of
        [] \<Rightarrow> Some 0
      | c # cs \<Rightarrow>
          if c = CHR ''-'' then map_option uminus (unsignedLiteral cs)
          else if c = CHR ''+'' then unsignedLiteral cs
          else unsignedLiteral (c # cs))"

text \<open>\<open>ToPrimitive\<close> and \<open>ToNumber\<close>, the latter with \<open>None\<close> for what is not a number.\<close>

fun toPrimitive :: "jsval \<Rightarrow> jsval" where
  "toPrimitive (Arr xs) = Str (asString (Arr xs))"
| "toPrimitive (Obj ps) = Str (asString (Obj ps))"
| "toPrimitive (Function f) = Str (asString (Function f))"
| "toPrimitive v = v"

fun toNumber :: "jsval \<Rightarrow> int option" where
  "toNumber Undefined = None"
| "toNumber Null = Some 0"
| "toNumber (Bool b) = Some (if b then 1 else 0)"
| "toNumber (Num n) = Some n"
| "toNumber (Str s) = integerLiteral s"
| "toNumber v = integerLiteral (asString v)"

fun stringLess :: "string \<Rightarrow> string \<Rightarrow> bool" where
  "stringLess [] [] = False"
| "stringLess [] (d # ds) = True"
| "stringLess (c # cs) [] = False"
| "stringLess (c # cs) (d # ds) =
     ((of_char c :: nat) < of_char d \<or> (c = d \<and> stringLess cs ds))"

definition valueLess :: "jsval \<Rightarrow> jsval \<Rightarrow> bool" where
  "valueLess a b =
     (case (toPrimitive a, toPrimitive b) of
        (Str s, Str t) \<Rightarrow> stringLess s t
      | (x, y) \<Rightarrow>
          (case (toNumber x, toNumber y) of (Some m, Some n) \<Rightarrow> m < n | _ \<Rightarrow> False))"

definition valueLessEq :: "jsval \<Rightarrow> jsval \<Rightarrow> bool" where
  "valueLessEq a b =
     (case (toPrimitive a, toPrimitive b) of
        (Str s, Str t) \<Rightarrow> \<not> stringLess t s
      | (x, y) \<Rightarrow>
          (case (toNumber x, toNumber y) of (Some m, Some n) \<Rightarrow> m \<le> n | _ \<Rightarrow> False))"

fun isNullish :: "jsval \<Rightarrow> bool" where
  "isNullish Undefined = True"
| "isNullish Null = True"
| "isNullish v = False"

fun isReference :: "jsval \<Rightarrow> bool" where
  "isReference (Arr xs) = True"
| "isReference (Obj ps) = True"
| "isReference (Function f) = True"
| "isReference v = False"

definition looseEq :: "jsval \<Rightarrow> jsval \<Rightarrow> bool" where
  "looseEq a b =
     (if isNullish a \<or> isNullish b then isNullish a \<and> isNullish b
      else if isReference a \<and> isReference b then strict_eq a b
      else
        (case (a, b) of
           (Bool x, Bool y) \<Rightarrow> x = y
         | _ \<Rightarrow>
             (case (toPrimitive a, toPrimitive b) of
                (Str s, Str t) \<Rightarrow> s = t
              | (x, y) \<Rightarrow>
                  (case (toNumber x, toNumber y) of
                     (Some m, Some n) \<Rightarrow> m = n
                   | _ \<Rightarrow> False))))"

definition asciiLower :: "string \<Rightarrow> string" where
  "asciiLower s =
     map (\<lambda>c. if 65 \<le> (of_char c :: nat) \<and> (of_char c :: nat) \<le> 90
              then char_of ((of_char c :: nat) + 32) else c) s"

text \<open>
  What every value inherits from \<open>Object.prototype\<close>: its constructor, the methods,
  and under \<open>__proto__\<close> the prototype itself, which has no enumerable property. The
  further methods that the prototypes of strings, sequences, booleans and numbers add
  are not listed.
\<close>

definition prototypeProperty :: "readable \<Rightarrow> string \<Rightarrow> jsval" where
  "prototypeProperty record key =
     (if key = ''constructor'' then
        Function (case record of
                    Mapping r \<Rightarrow> ''Object''
                  | NullValue \<Rightarrow> ''Object''
                  | BoolValue b \<Rightarrow> ''Boolean''
                  | NumValue n \<Rightarrow> ''Number''
                  | StrValue s \<Rightarrow> ''String''
                  | SeqValue xs \<Rightarrow> ''Array'')
      else if key \<in> set [''hasOwnProperty'', ''isPrototypeOf'', ''propertyIsEnumerable'',
                          ''toLocaleString'', ''toString'', ''valueOf'', ''__defineGetter__'',
                          ''__defineSetter__'', ''__lookupGetter__'', ''__lookupSetter__'']
      then Function key
      else if key = ''__proto__'' then (case record of SeqValue xs \<Rightarrow> Arr [] | _ \<Rightarrow> Obj [])
      else Undefined)"

text \<open>
  The sort of the V8 engine for an array of fewer than 64 elements: the run at the
  start of the array is found and, when it descends, reversed; every further element
  is then placed into the sorted part by a binary search.
\<close>

fun extendRun :: "('a \<Rightarrow> 'a \<Rightarrow> int) \<Rightarrow> bool \<Rightarrow> 'a \<Rightarrow> 'a list \<Rightarrow> nat" where
  "extendRun cmp descending previous [] = 0"
| "extendRun cmp descending previous (current # rest) =
     (let order = cmp current previous
      in if (if descending then order \<ge> 0 else order < 0) then 0
         else Suc (extendRun cmp descending current rest))"

definition countRun :: "('a \<Rightarrow> 'a \<Rightarrow> int) \<Rightarrow> 'a list \<Rightarrow> bool \<times> nat" where
  "countRun cmp xs =
     (case xs of
        high # low # rest \<Rightarrow>
          (let descending = (cmp low high < 0)
           in (descending, 2 + extendRun cmp descending low rest))
      | _ \<Rightarrow> (False, length xs))"

function binarySearch :: "('a \<Rightarrow> 'a \<Rightarrow> int) \<Rightarrow> 'a \<Rightarrow> 'a list \<Rightarrow> nat \<Rightarrow> nat \<Rightarrow> nat" where
  "binarySearch cmp pivot xs left right =
     (if left < right then
        (let mid = left + (right - left) div 2
         in if cmp pivot (xs ! mid) < 0 then binarySearch cmp pivot xs left mid
            else binarySearch cmp pivot xs (mid + 1) right)
      else left)"
  by pat_completeness auto
termination
  by (relation "measure (\<lambda>(cmp, pivot, xs, left, right). right - left)") auto

definition insertPivot :: "('a \<Rightarrow> 'a \<Rightarrow> int) \<Rightarrow> 'a list \<Rightarrow> 'a \<Rightarrow> 'a list" where
  "insertPivot cmp ordered pivot =
     (let left = binarySearch cmp pivot ordered 0 (length ordered)
      in take left ordered @ [pivot] @ drop left ordered)"

definition v8Sort :: "('a \<Rightarrow> 'a \<Rightarrow> int) \<Rightarrow> 'a list \<Rightarrow> 'a list" where
  "v8Sort cmp xs =
     (if length xs < 2 then xs
      else
        (case countRun cmp xs of
           (descending, n) \<Rightarrow>
             foldl (insertPivot cmp)
               (if descending then rev (take n xs) else take n xs) (drop n xs)))"

definition scalar_ops :: js_ops where
  "scalar_ops =
     \<lparr>op_ne = (\<lambda>a b. \<not> looseEq a b),
      op_lt = valueLess,
      op_lte = valueLessEq,
      op_gt = (\<lambda>a b. valueLess b a),
      op_gte = (\<lambda>a b. valueLessEq b a),
      toStringJs = asString,
      toLowerCase = asciiLower,
      inherited = prototypeProperty,
      arraySort = v8Sort\<rparr>"

text \<open>
  A serialiser that stores the parsed value itself. It is the instance at which the
  operations are evaluated on concrete inputs.
\<close>

definition literal_yaml :: "readable yaml" where
  "literal_yaml = \<lparr>stringify = Mapping, parse = Some\<rparr>"

text \<open>The query \<open>{}\<close>.\<close>

definition emptyQuery :: query where
  "emptyQuery = \<lparr>q_limit = None, q_skip = None, q_sort = None, q_select = None, filters = []\<rparr>"

text \<open>
  A table \<open>people\<close> of two records, beside a file that is not a record; a table
  \<open>drafts\<close> whose directory holds no record; and a table \<open>items\<close> with a mapping
  that has no \<open>id\<close> and an empty file, which parses to \<open>null\<close>.
\<close>

definition ann :: fields where
  "ann = [''id'' \<mapsto> Str ''a1'', ''age'' \<mapsto> Num 10, ''name'' \<mapsto> Str ''Ann'']"

definition bob :: fields where
  "bob = [''id'' \<mapsto> Str ''b2'', ''age'' \<mapsto> Num 30]"

definition people :: "readable filesystem" where
  "people =
     [''people'' \<mapsto>
        [(''a1.yaml'', Mapping ann), (''notes.txt'', NullValue), (''b2.yaml'', Mapping bob)],
      ''drafts'' \<mapsto> [(''readme.txt'', NullValue)],
      ''items'' \<mapsto> [(''x8.yaml'', Mapping [''age'' \<mapsto> Num 2]), (''e0.yaml'', NullValue)]]"

text \<open>
  Three operations on a store that is a log of numbers: each appends its number; the
  second is rejected.
\<close>

definition threeWrites :: "(unit \<Rightarrow> (nat list, string, nat) promise) list" where
  "threeWrites =
     [\<lambda>u s. (Fulfilled 1, s @ [1]),
      \<lambda>u s. (Rejected ''disk full'', s @ [2]),
      \<lambda>u s. (Fulfilled 3, s @ [3])]"

declare indexKey.simps [simp del]

section \<open>Reading and writing record files\<close>

lemmas store_defs = readRecord_def existsRecord_def recordFile_def recordPath_def tablePath_def
  writeFile_def unlinkSync_def mkdirSync_def literal_yaml_def

lemma readRecord_absent:
  "\<not> existsRecord fs table ident \<Longrightarrow>
   readRecord y fs table ident = Inl (NotFound (recordPath table ident))"
  by (simp add: readRecord_def)

lemma readRecord_Inr_exists:
  "readRecord y fs table ident = Inr r \<Longrightarrow> existsRecord fs table ident"
  by (auto simp: readRecord_def split: if_splits)

lemma readRecord_NotFound_iff:
  "(\<exists>p. readRecord y fs table ident = Inl (NotFound p)) = (\<not> existsRecord fs table ident)"
  by (auto simp: readRecord_def existsRecord_def split: option.splits)

lemma existsRecord_unlink:
  "\<not> existsRecord (unlinkSync fs table (recordFile ident)) table ident"
  by (auto simp: existsRecord_def unlinkSync_def delete_conv' split: option.splits)

lemma readRecord_after_write:
  assumes "fs table = Some dir" and "parse y c = Some r"
  shows "readRecord y (fs(table \<mapsto> AList.update (recordFile ident) c dir)) table ident = Inr r"
  using assms by (simp add: readRecord_def existsRecord_def update_conv')

lemma readAll_people:
  "readAll literal_yaml people ''people'' [''a1.yaml'', ''notes.txt'', ''b2.yaml'']
     = [Mapping ann, Mapping bob]"
  by (simp add: people_def store_defs endsWith_def js_slice_def)

lemma list_people_query:
  "yaml_list js literal_yaml people ''people'' (Some q) =
     (case applyFilters js q [Mapping ann, Mapping bob] of
        Inl e \<Rightarrow> Inl e
      | Inr filtered \<Rightarrow>
          (case applySorting js q filtered of
             Inl e \<Rightarrow> Inl e
           | Inr ordered \<Rightarrow> applyProjection js q (applyPagination q ordered)))"
  using readAll_people by (simp add: yaml_list_def people_def)

lemma find_ann: "yaml_find literal_yaml people ''people'' ''a1'' = Inr (Mapping ann)"
  by (simp add: yaml_find_def people_def store_defs)

section \<open>Create, then find\<close>

text \<open>
  C1, as amended. Let \<open>create\<close> be called with a generated id \<open>g\<close> and with data that
  has no \<open>id\<close> property, or whose \<open>id\<close> is \<open>g\<close> itself, and let the serialiser give
  the record back when its output is parsed. Then \<open>create\<close> succeeds, the record \<open>R\<close>
  it returns is the data with \<open>id = g\<close>, and \<open>find(table, R.id)\<close> on the resulting
  store succeeds and returns \<open>R\<close>.
\<close>

theorem create_then_find:
  assumes ident: "data ''id'' = None \<or> data ''id'' = Some (Str g)"
    and roundtrip:
      "parse y (stringify y ([''id'' \<mapsto> Str g] ++ data))
         = Some (Mapping ([''id'' \<mapsto> Str g] ++ data))"
  shows "\<exists>R fs'. yaml_create y fs g table data = (Inr (Mapping R), fs') \<and>
           R = [''id'' \<mapsto> Str g] ++ data \<and>
           R ''id'' = Some (Str g) \<and>
           yaml_find y fs' table g = Inr (Mapping R)"
proof (cases "fs table")
  case None
  have w: "writeFile (fs(table \<mapsto> [])) table (recordFile g) c
      = Inr ((fs(table \<mapsto> []))(table \<mapsto> AList.update (recordFile g) c []))" for c
    by (simp add: writeFile_def)
  have r: "readRecord y
      ((fs(table \<mapsto> []))(table \<mapsto>
          AList.update (recordFile g) (stringify y ([''id'' \<mapsto> Str g] ++ data)) []))
      table g = Inr (Mapping ([''id'' \<mapsto> Str g] ++ data))"
    using roundtrip by (simp add: readRecord_def existsRecord_def update_conv')
  from ident have i: "([''id'' \<mapsto> Str g] ++ data) ''id'' = Some (Str g)"
    by (auto simp: map_add_def)
  show ?thesis using None w r i
    by (simp add: yaml_create_def yaml_find_def mkdirSync_def Let_def)
next
  case (Some dir)
  have w: "writeFile fs table (recordFile g) c
      = Inr (fs(table \<mapsto> AList.update (recordFile g) c dir))" for c
    using Some by (simp add: writeFile_def)
  have r: "readRecord y
      (fs(table \<mapsto> AList.update (recordFile g) (stringify y ([''id'' \<mapsto> Str g] ++ data)) dir))
      table g = Inr (Mapping ([''id'' \<mapsto> Str g] ++ data))"
    using Some roundtrip by (simp add: readRecord_after_write)
  from ident have i: "([''id'' \<mapsto> Str g] ++ data) ''id'' = Some (Str g)"
    by (auto simp: map_add_def)
  show ?thesis using Some w r i
    by (simp add: yaml_create_def yaml_find_def Let_def)
qed

text \<open>The theorem at the data \<open>{title: 'milk'}\<close>, created in a table that does not exist yet.\<close>

theorem create_then_find_witness:
  "\<exists>R fs'. yaml_create literal_yaml Map.empty ''k3'' ''todos'' [''title'' \<mapsto> Str ''milk'']
             = (Inr (Mapping R), fs') \<and>
           R = [''id'' \<mapsto> Str ''k3''] ++ [''title'' \<mapsto> Str ''milk''] \<and>
           R ''id'' = Some (Str ''k3'') \<and>
           yaml_find literal_yaml fs' ''todos'' ''k3'' = Inr (Mapping R)"
  using create_then_find
    [of "[''title'' \<mapsto> Str ''milk'']" "''k3''" literal_yaml Map.empty "''todos''"]
  by (simp add: literal_yaml_def)

text \<open>
  The claim as written fails for data that has an \<open>id\<close> of its own: with the data
  \<open>{id: 'mine'}\<close> and the generated id \<open>k3\<close>, the returned record has the id
  \<open>mine\<close>, the file is \<open>k3.yaml\<close>, and \<open>find\<close> of \<open>mine\<close> is not found.
\<close>

theorem create_data_id_counterexample:
  "fst (yaml_create literal_yaml Map.empty ''k3'' ''todos'' [''id'' \<mapsto> Str ''mine''])
     = Inr (Mapping [''id'' \<mapsto> Str ''mine'']) \<and>
   yaml_find literal_yaml
       (snd (yaml_create literal_yaml Map.empty ''k3'' ''todos'' [''id'' \<mapsto> Str ''mine'']))
       ''todos'' ''mine''
     = Inl (NotFound ''database/todos/mine.yaml'')"
  by (simp add: yaml_create_def yaml_find_def store_defs Let_def)

section \<open>Update\<close>




section \<open>Remove\<close>

text \<open>
  C7, as amended. \<open>remove(table, id)\<close> fails with the not-found error exactly when the
  record file is absent. When it succeeds, a record was stored under \<open>id\<close> and
  \<open>remove\<close> returns \<open>{ id, ...stored }\<close>: the fields of the record as it was stored
  immediately before the deletion, with \<open>id\<close> set to the requested id when the
  stored record has no \<open>id\<close> of its own. For a stored mapping that has an \<open>id\<close>
  this is the stored record itself. On the store that \<open>remove\<close> leaves behind,
  \<open>find(table, id)\<close> fails with the not-found error.
\<close>

theorem remove_returns_stored:
  "((\<exists>p. fst (yaml_remove y fs table ident) = Inl (NotFound p)) =
      (\<not> existsRecord fs table ident)) \<and>
   (\<forall>R. fst (yaml_remove y fs table ident) = Inr R \<longrightarrow>
      (\<exists>stored. yaml_find y fs table ident = Inr stored \<and>
                 R = Mapping ([''id'' \<mapsto> Str ident] ++ ownProperties stored) \<and>
                 (\<forall>r. stored = Mapping r \<and> ''id'' \<in> dom r \<longrightarrow> R = stored)) \<and>
      yaml_find y (snd (yaml_remove y fs table ident)) table ident
        = Inl (NotFound (recordPath table ident)))"
proof (cases "readRecord y fs table ident")
  case (Inl e)
  have "(\<exists>p. e = NotFound p) = (\<not> existsRecord fs table ident)"
    using readRecord_NotFound_iff[of y fs table ident] Inl by simp
  with Inl show ?thesis by (simp add: yaml_remove_def)
next
  case (Inr stored)
  then have ex: "existsRecord fs table ident" by (rule readRecord_Inr_exists)
  have same: "\<forall>r. stored = Mapping r \<and> ''id'' \<in> dom r \<longrightarrow>
      Mapping ([''id'' \<mapsto> Str ident] ++ ownProperties stored) = stored"
    by (auto simp: map_add_def fun_eq_iff split: option.splits)
  have gone: "yaml_find y (unlinkSync fs table (recordFile ident)) table ident
      = Inl (NotFound (recordPath table ident))"
    unfolding yaml_find_def by (rule readRecord_absent[OF existsRecord_unlink])
  from Inr ex same gone show ?thesis
    by (simp add: yaml_remove_def yaml_find_def)
qed

text \<open>The theorem at the record \<open>ann\<close>, which is removed, and at an id that is not stored.\<close>

theorem remove_returns_stored_witness:
  "existsRecord people ''people'' ''a1'' \<and>
   fst (yaml_remove literal_yaml people ''people'' ''a1'') = Inr (Mapping ann) \<and>
   yaml_find literal_yaml (snd (yaml_remove literal_yaml people ''people'' ''a1''))
       ''people'' ''a1''
     = Inl (NotFound ''database/people/a1.yaml'') \<and>
   fst (yaml_remove literal_yaml people ''people'' ''zz'')
     = Inl (NotFound ''database/people/zz.yaml'')"
proof -
  have ex: "existsRecord people ''people'' ''a1''"
    by (simp add: people_def existsRecord_def recordFile_def)
  have absent: "\<not> existsRecord people ''people'' ''zz''"
    by (simp add: people_def existsRecord_def recordFile_def)
  have removed: "fst (yaml_remove literal_yaml people ''people'' ''a1'')
      = Inr (Mapping ([''id'' \<mapsto> Str ''a1''] ++ ann))"
    using find_ann ex by (simp add: yaml_remove_def yaml_find_def)
  have has_id: "''id'' \<in> dom ann"
    by (simp add: ann_def)
  from remove_returns_stored [of literal_yaml people "''people''" "''a1''"] removed find_ann has_id
  have "Mapping ([''id'' \<mapsto> Str ''a1''] ++ ann) = Mapping ann"
    and "yaml_find literal_yaml (snd (yaml_remove literal_yaml people ''people'' ''a1''))
       ''people'' ''a1'' = Inl (NotFound (recordPath ''people'' ''a1''))"
    by auto
  with ex removed absent show ?thesis
    by (simp add: yaml_remove_def readRecord_absent recordPath_def tablePath_def recordFile_def)
qed

text \<open>
  The claim as written fails for a stored record without an \<open>id\<close>: the file
  \<open>x8.yaml\<close> of the table \<open>items\<close> holds \<open>{age: 2}\<close>, which is what \<open>find\<close>
  returns, and \<open>remove\<close> returns \<open>{id: 'x8', age: 2}\<close>.
\<close>

theorem remove_adds_id_counterexample:
  "yaml_find literal_yaml people ''items'' ''x8'' = Inr (Mapping [''age'' \<mapsto> Num 2]) \<and>
   fst (yaml_remove literal_yaml people ''items'' ''x8'')
     = Inr (Mapping [''id'' \<mapsto> Str ''x8'', ''age'' \<mapsto> Num 2]) \<and>
   [''age'' \<mapsto> Num 2] ''id'' = None \<and>
   [''id'' \<mapsto> Str ''x8'', ''age'' \<mapsto> Num 2] ''id'' = Some (Str ''x8'')"
  by (simp add: yaml_remove_def yaml_find_def people_def store_defs)

section \<open>A failing update or remove writes nothing\<close>

text \<open>
  C10. When no record file is stored under \<open>id\<close>, \<open>update(table, id, data)\<close> and
  \<open>remove(table, id)\<close> both fail with the not-found error and leave the file system
  exactly as it was.
\<close>

theorem absent_record_store_unchanged:
  assumes "\<not> existsRecord fs table ident"
  shows "yaml_update y fs table ident data = (Inl (NotFound (recordPath table ident)), fs) \<and>
         yaml_remove y fs table ident = (Inl (NotFound (recordPath table ident)), fs)"
  using readRecord_absent[OF assms, of y]
  by (simp add: yaml_update_def yaml_remove_def)

text \<open>The theorem at the id \<open>zz\<close>, which the table \<open>people\<close> does not hold.\<close>

theorem absent_record_store_unchanged_witness:
  "\<not> existsRecord people ''people'' ''zz'' \<and>
   yaml_update literal_yaml people ''people'' ''zz'' [''age'' \<mapsto> Num 1]
     = (Inl (NotFound ''database/people/zz.yaml''), people) \<and>
   yaml_remove literal_yaml people ''people'' ''zz''
     = (Inl (NotFound ''database/people/zz.yaml''), people)"
proof -
  have absent: "\<not> existsRecord people ''people'' ''zz''"
    by (simp add: people_def existsRecord_def recordFile_def)
  from absent_record_store_unchanged [where fs = people and table = "''people''"
      and ident = "''zz''" and y = literal_yaml and data = "[''age'' \<mapsto> Num 1]"] absent
  show ?thesis
    by (simp add: recordPath_def tablePath_def recordFile_def)
qed

section \<open>Listing\<close>

lemma js_slice_Nil: "js_slice [] a b = []"
  by (simp add: js_slice_def)

lemma js_slice_all: "js_slice xs 0 (int (length xs)) = xs"
  by (simp add: js_slice_def)

lemma pipeline_Nil:
  "applyFilters js q [] = Inr []" "applySorting js q [] = Inr []"
  "applyPagination q [] = []" "applyProjection js q [] = Inr []"
  by (simp_all add: applyProjection_def applyPagination_def applySorting_def applyFilters_def
      sortRecords_def js_slice_Nil split: option.splits list.splits prod.splits)

lemma readAll_no_yaml:
  "list_all (\<lambda>f. \<not> endsWith f ''.yaml'') files \<Longrightarrow> readAll y fs table files = []"
  by (induction files) simp_all

text \<open>
  C8. When the directory of the table is absent, or holds no file named \<open>*.yaml\<close>,
  \<open>list\<close> succeeds with the empty sequence, with any query or none.
\<close>

theorem list_empty_table:
  assumes "fs table = None \<or>
           (\<exists>dir. fs table = Some dir \<and> list_all (\<lambda>f. \<not> endsWith f ''.yaml'') (map fst dir))"
  shows "yaml_list js y fs table qry = Inr []"
  using assms
  by (auto simp: yaml_list_def readAll_no_yaml pipeline_Nil split: option.splits)

text \<open>
  The theorem at a table that was never created and at one whose directory holds a
  single file that is not a record.
\<close>

theorem list_empty_table_witness:
  "people ''orders'' = None \<and>
   yaml_list scalar_ops literal_yaml people ''orders'' (Some emptyQuery) = Inr [] \<and>
   people ''drafts'' = Some [(''readme.txt'', NullValue)] \<and>
   \<not> endsWith ''readme.txt'' ''.yaml'' \<and>
   yaml_list scalar_ops literal_yaml people ''drafts'' None = Inr []"
proof -
  have none: "people ''orders'' = None"
    by (simp add: people_def)
  have drafts: "people ''drafts'' = Some [(''readme.txt'', NullValue)]"
    by (simp add: people_def)
  have other: "\<not> endsWith ''readme.txt'' ''.yaml''"
    by (simp add: endsWith_def)
  from list_empty_table [where fs = people and table = "''orders''" and js = scalar_ops
      and y = literal_yaml and qry = "Some emptyQuery"] none
  have first: "yaml_list scalar_ops literal_yaml people ''orders'' (Some emptyQuery) = Inr []"
    by simp
  from list_empty_table [where fs = people and table = "''drafts''" and js = scalar_ops
      and y = literal_yaml and qry = None] drafts other
  have "yaml_list scalar_ops literal_yaml people ''drafts'' None = Inr []"
    by simp
  with none drafts other first show ?thesis by simp
qed

text \<open>
  C9. \<open>list\<close> with the query \<open>{}\<close> returns what \<open>list\<close> without a query returns.
\<close>

theorem list_empty_query:
  "yaml_list js y fs table (Some emptyQuery) = yaml_list js y fs table None"
  by (simp add: yaml_list_def emptyQuery_def applyProjection_def applyPagination_def
      applySorting_def applyFilters_def js_slice_all Let_def split: option.splits)

text \<open>The theorem at the table \<open>people\<close>: both calls return the two records, in directory order.\<close>

theorem list_empty_query_witness:
  "yaml_list scalar_ops literal_yaml people ''people'' (Some emptyQuery)
     = Inr [Mapping ann, Mapping bob]"
  using list_empty_query [of scalar_ops literal_yaml people "''people''"] readAll_people
  by (simp add: yaml_list_def people_def)

section \<open>Pagination\<close>

lemma js_slice_take_drop:
  "0 \<le> a \<Longrightarrow> 0 \<le> n \<Longrightarrow> js_slice xs a (a + n) = take (nat n) (drop (nat a) xs)"
  by (auto simp: js_slice_def Let_def min_def max_def nat_add_distrib nat_diff_distrib')

lemma applyPagination_take_drop:
  assumes skip: "skip = (case q_skip q of None \<Rightarrow> 0 | Some n \<Rightarrow> nat n)"
    and limit: "limit = (case q_limit q of
                           None \<Rightarrow> length rows - skip
                         | Some n \<Rightarrow> if n = 0 then length rows - skip else nat n)"
    and skip_nonneg: "case q_skip q of None \<Rightarrow> True | Some n \<Rightarrow> 0 \<le> n"
    and limit_nonneg: "case q_limit q of None \<Rightarrow> True | Some n \<Rightarrow> 0 \<le> n"
  shows "applyPagination q rows = take limit (drop skip rows)"
proof (cases "q_skip q")
  case None
  show ?thesis
  proof (cases "q_limit q")
    case lnone: None
    show ?thesis
      using None lnone skip limit js_slice_take_drop[of 0 "int (length rows)" rows]
      by (simp add: applyPagination_def)
  next
    case (Some n)
    show ?thesis
      using None Some skip limit limit_nonneg js_slice_take_drop[of 0 n rows]
        js_slice_take_drop[of 0 "int (length rows)" rows]
      by (simp add: applyPagination_def)
  qed
next
  case (Some m)
  with skip_nonneg have m: "0 \<le> m" by simp
  show ?thesis
  proof (cases "q_limit q")
    case None
    show ?thesis
      using None Some m skip limit js_slice_take_drop[of m "int (length rows)" rows]
      by (simp add: applyPagination_def)
  next
    case lsome: (Some n)
    show ?thesis
      using lsome Some m skip limit limit_nonneg js_slice_take_drop[of m n rows]
        js_slice_take_drop[of m "int (length rows)" rows]
      by (simp add: applyPagination_def)
  qed
qed

text \<open>
  C4, as amended. Take a query without \<open>$select\<close> whose \<open>$skip\<close> and \<open>$limit\<close>,
  where present, are not negative, and let \<open>rows\<close> be the records of the table after
  filtering and sorting. Then \<open>list\<close> returns exactly the slice of \<open>rows\<close> that
  starts at \<open>skip\<close> and has \<open>limit\<close> elements, where \<open>skip\<close> is \<open>$skip\<close> if
  present and 0 otherwise, and \<open>limit\<close> is \<open>$limit\<close> if present and not 0, and the
  number of records that remain after \<open>skip\<close> otherwise. So pagination comes after
  filtering and sorting, and \<open>$limit: 0\<close> limits nothing.
\<close>

theorem list_pagination:
  assumes dir: "fs table = Some dir"
    and no_select: "q_select q = None"
    and filtered: "applyFilters js q (readAll y fs table (map fst dir)) = Inr filtered"
    and rows: "applySorting js q filtered = Inr rows"
    and skip: "skip = (case q_skip q of None \<Rightarrow> 0 | Some n \<Rightarrow> nat n)"
    and limit: "limit = (case q_limit q of
                           None \<Rightarrow> length rows - skip
                         | Some n \<Rightarrow> if n = 0 then length rows - skip else nat n)"
    and skip_nonneg: "case q_skip q of None \<Rightarrow> True | Some n \<Rightarrow> 0 \<le> n"
    and limit_nonneg: "case q_limit q of None \<Rightarrow> True | Some n \<Rightarrow> 0 \<le> n"
  shows "yaml_list js y fs table (Some q) = Inr (take limit (drop skip rows))"
proof -
  have "applyPagination q rows = take limit (drop skip rows)"
    using skip limit skip_nonneg limit_nonneg by (rule applyPagination_take_drop)
  then show ?thesis
    using dir no_select filtered rows by (simp add: yaml_list_def applyProjection_def)
qed

lemma compare_people:
  "compareRecords scalar_ops ''age'' (- 1) (Mapping ann) (Mapping ann) = 0"
  "compareRecords scalar_ops ''age'' (- 1) (Mapping bob) (Mapping bob) = 0"
  "compareRecords scalar_ops ''age'' (- 1) (Mapping ann) (Mapping bob) = 1"
  "compareRecords scalar_ops ''age'' (- 1) (Mapping bob) (Mapping ann) = - 1"
  by (simp_all add: compareRecords_def scalar_ops_def propertyOf_def valueLess_def ann_def bob_def)

lemma sort_people_descending:
  "applySorting scalar_ops
     (emptyQuery\<lparr>q_sort := Some [(''age'', - 1)], q_skip := Some 1, q_limit := Some 1\<rparr>)
     [Mapping ann, Mapping bob] = Inr [Mapping bob, Mapping ann]"
  by (simp add: applySorting_def emptyQuery_def sortRecords_def consistentOn_def sortBy_def
      compare_people)

text \<open>
  The theorem at the query \<open>{$sort: {age: -1}, $skip: 1, $limit: 1}\<close>: the two
  records sorted by descending age are \<open>bob\<close>, \<open>ann\<close>, and the page is \<open>ann\<close>.
\<close>

theorem list_pagination_witness:
  "yaml_list scalar_ops literal_yaml people ''people''
     (Some (emptyQuery\<lparr>q_sort := Some [(''age'', - 1)], q_skip := Some 1, q_limit := Some 1\<rparr>))
   = Inr [Mapping ann]"
proof -
  let ?q = "emptyQuery\<lparr>q_sort := Some [(''age'', - 1)], q_skip := Some 1, q_limit := Some 1\<rparr>"
  have dir: "people ''people''
      = Some [(''a1.yaml'', Mapping ann), (''notes.txt'', NullValue), (''b2.yaml'', Mapping bob)]"
    by (simp add: people_def)
  have filtered: "applyFilters scalar_ops ?q
      (readAll literal_yaml people ''people''
        (map fst [(''a1.yaml'', Mapping ann), (''notes.txt'', NullValue),
                  (''b2.yaml'', Mapping bob)]))
      = Inr [Mapping ann, Mapping bob]"
    using readAll_people by (simp add: applyFilters_def emptyQuery_def)
  have "yaml_list scalar_ops literal_yaml people ''people'' (Some ?q)
      = Inr (take 1 (drop 1 [Mapping bob, Mapping ann]))"
    by (rule list_pagination [OF dir _ filtered sort_people_descending])
      (simp_all add: emptyQuery_def)
  then show ?thesis by simp
qed

text \<open>
  The claim as written fails at \<open>$limit: 0\<close>: the query \<open>{$limit: 0}\<close> on the table
  \<open>people\<close> returns both records, not the empty sequence.
\<close>

theorem limit_zero_counterexample:
  "yaml_list scalar_ops literal_yaml people ''people'' (Some (emptyQuery\<lparr>q_limit := Some 0\<rparr>))
   = Inr [Mapping ann, Mapping bob]"
  by (simp add: list_people_query applyProjection_def applyPagination_def applySorting_def
      applyFilters_def emptyQuery_def js_slice_def)

section \<open>Projection\<close>

lemma selectRecord_throws: "selectRecord js sel record = Inl TypeError"
  by (cases "record") (simp_all add: selectRecord_def readProperty_def)

lemma mapRecords_throws: "mapRecords (selectRecord js sel) (record # records) = Inl TypeError"
  by (simp add: selectRecord_throws)

text \<open>
  C5, evaluated. With \<open>$select: ['age']\<close>, \<open>list\<close> on the table \<open>people\<close> does not
  return projected records: it ends with a \<open>TypeError\<close>, thrown by the callback of
  the projection at the first record of the page.
\<close>

theorem select_throws:
  "yaml_list scalar_ops literal_yaml people ''people''
     (Some (emptyQuery\<lparr>q_select := Some [''age'']\<rparr>)) = Inl TypeError"
  by (simp add: list_people_query applyProjection_def applyPagination_def applySorting_def
      applyFilters_def emptyQuery_def js_slice_def selectRecord_throws)

text \<open>
  In general, the projection of a page that is not empty ends with a \<open>TypeError\<close>,
  whatever is selected, and the projection of an empty page is empty.
\<close>

theorem projection_throws:
  "applyProjection js (q\<lparr>q_select := Some sel\<rparr>) (record # records) = Inl TypeError \<and>
   applyProjection js (q\<lparr>q_select := Some sel\<rparr>) [] = Inr []"
  by (simp add: applyProjection_def selectRecord_throws)

section \<open>Sorting records that lack the key\<close>

lemma compare_missing_key:
  "compareRecords scalar_ops ''age'' 1 (Mapping [''age'' \<mapsto> Num m]) (Mapping [''age'' \<mapsto> Num n])
     = (if m < n then - 1 else if n < m then 1 else 0)"
  "compareRecords scalar_ops ''age'' 1 (Mapping Map.empty) b = 0"
  "compareRecords scalar_ops ''age'' 1 a (Mapping Map.empty) = 0"
  by (simp_all add: compareRecords_def scalar_ops_def propertyOf_def valueLess_def
      prototypeProperty_def split: jsval.splits option.splits prod.splits)

lemma arraySort_scalar_ops: "arraySort scalar_ops = v8Sort"
  by (simp add: scalar_ops_def)

text \<open>
  Four records with the ages 30, 10, none and 20, sorted by ascending age. The record
  without an age compares equal to each of the others, so the comparator is not a
  consistent ordering, and the order is the engine's: 10, 20, 30 and then the record
  without an age.
\<close>

lemma sort_missing_key:
  "applySorting scalar_ops (emptyQuery\<lparr>q_sort := Some [(''age'', 1)]\<rparr>)
     [Mapping [''age'' \<mapsto> Num 30], Mapping [''age'' \<mapsto> Num 10], Mapping Map.empty,
      Mapping [''age'' \<mapsto> Num 20]]
   = Inr [Mapping [''age'' \<mapsto> Num 10], Mapping [''age'' \<mapsto> Num 20],
          Mapping [''age'' \<mapsto> Num 30], Mapping Map.empty]"
proof -
  let ?cmp = "compareRecords scalar_ops ''age'' 1"
  let ?rows = "[Mapping [''age'' \<mapsto> Num 30], Mapping [''age'' \<mapsto> Num 10], Mapping Map.empty,
      Mapping [''age'' \<mapsto> Num 20]]"
  have inconsistent: "\<not> consistentOn ?cmp ?rows"
    by (simp add: consistentOn_def compare_missing_key)
  have run: "countRun ?cmp ?rows = (True, 2)"
    by (simp add: countRun_def compare_missing_key)
  have first: "insertPivot ?cmp
      [Mapping [''age'' \<mapsto> Num 10], Mapping [''age'' \<mapsto> Num 30]] (Mapping Map.empty)
      = [Mapping [''age'' \<mapsto> Num 10], Mapping [''age'' \<mapsto> Num 30], Mapping Map.empty]"
    by (simp add: insertPivot_def binarySearch.simps compare_missing_key)
  have second: "insertPivot ?cmp
      [Mapping [''age'' \<mapsto> Num 10], Mapping [''age'' \<mapsto> Num 30], Mapping Map.empty]
      (Mapping [''age'' \<mapsto> Num 20])
      = [Mapping [''age'' \<mapsto> Num 10], Mapping [''age'' \<mapsto> Num 20],
         Mapping [''age'' \<mapsto> Num 30], Mapping Map.empty]"
    by (simp add: insertPivot_def binarySearch.simps compare_missing_key)
  have "v8Sort ?cmp ?rows
      = [Mapping [''age'' \<mapsto> Num 10], Mapping [''age'' \<mapsto> Num 20],
         Mapping [''age'' \<mapsto> Num 30], Mapping Map.empty]"
    by (simp add: v8Sort_def run first second)
  with inconsistent show ?thesis
    by (simp add: applySorting_def emptyQuery_def sortRecords_def arraySort_scalar_ops)
qed

section \<open>The combinators \<open>$or\<close> and \<open>$and\<close>\<close>

lemma indexKey_not_empty: "indexKey n \<noteq> []"
  by (subst indexKey.simps) simp

lemma digit_not_dollar:
  assumes "n < 10"
  shows "''0123456789'' ! n \<noteq> CHR ''$''"
proof -
  from assms have "''0123456789'' ! n \<in> set ''0123456789''"
    by (intro nth_mem) simp
  then show ?thesis by auto
qed

lemma indexKey_hd: "hd (indexKey n) \<noteq> CHR ''$''"
proof (induction n rule: indexKey.induct)
  case (1 n)
  show ?case
  proof (cases "n < 10")
    case True
    then show ?thesis by (subst indexKey.simps) (simp add: digit_not_dollar)
  next
    case False
    with 1 indexKey_not_empty[of "n div 10"] show ?thesis
      by (subst indexKey.simps) simp
  qed
qed

lemma operatorHolds_other:
  "op \<noteq> [] \<Longrightarrow> hd op \<noteq> CHR ''$'' \<Longrightarrow> operatorHolds js op a b"
  by (cases op) (simp_all add: operatorHolds_def)

lemma array_entries_hold:
  "list_all (\<lambda>e. operatorHolds js (fst e) recordValue (snd e)) (entries (Arr xs))"
proof -
  have "operatorHolds js (fst e) recordValue (snd e)"
    if "e \<in> set (zip (map indexKey [0..<length xs]) xs)" for e
  proof -
    obtain a b where e: "e = (a, b)" by (cases e)
    from that have "fst e \<in> set (map indexKey [0..<length xs])"
      unfolding e using set_zip_leftD[of a b "map indexKey [0..<length xs]" xs] by simp
    then obtain n where "fst e = indexKey n" by auto
    then show ?thesis
      by (simp add: operatorHolds_other indexKey_not_empty indexKey_hd)
  qed
  then show ?thesis by (simp add: list_all_iff)
qed

lemma array_filter_holds: "fieldHolds js (Mapping r) (key, Arr subqueries) = Inr True"
  using array_entries_hold[of js "propertyOf js (Mapping r) key" subqueries]
  by (simp add: fieldHolds_def readProperty_def)

lemma operator_filter_holds:
  "fieldHolds js (Mapping r) (key, Obj [(''$or'', v)]) = Inr True"
  "fieldHolds js (Mapping r) (key, Obj [(''$and'', v)]) = Inr True"
  by (simp_all add: fieldHolds_def readProperty_def operatorHolds_def)

lemma list_people_filters:
  "yaml_list js literal_yaml people ''people'' (Some (emptyQuery\<lparr>filters := e # es\<rparr>))
     = filterRecords (matches js (e # es)) [Mapping ann, Mapping bob]"
proof -
  have shaping: "(case applySorting js (emptyQuery\<lparr>filters := e # es\<rparr>) xs of
        Inl err \<Rightarrow> Inl err
      | Inr ordered \<Rightarrow>
          applyProjection js (emptyQuery\<lparr>filters := e # es\<rparr>)
            (applyPagination (emptyQuery\<lparr>filters := e # es\<rparr>) ordered)) = Inr xs" for xs
    by (simp add: applyProjection_def applyPagination_def applySorting_def emptyQuery_def
        js_slice_all)
  have filtering: "applyFilters js (emptyQuery\<lparr>filters := e # es\<rparr>) xs
      = filterRecords (matches js (e # es)) xs" for xs
    by (simp add: applyFilters_def emptyQuery_def)
  show ?thesis
    unfolding list_people_query filtering shaping
    by (simp split: sum.splits)
qed

lemma age_of_people:
  "propertyOf js (Mapping ann) ''age'' = Num 10" "propertyOf js (Mapping bob) ''age'' = Num 30"
  by (simp_all add: propertyOf_def ann_def bob_def)

text \<open>
  C3, evaluated. The query \<open>{age: 30}\<close> selects \<open>bob\<close> alone. The queries
  \<open>{$or: [{age: 30}]}\<close> and \<open>{age: {$or: [{age: 30}]}}\<close> return \<open>ann\<close> as well,
  whose age is 10, and so does \<open>{$and: [{age: 30}, {age: 10}]}\<close>, which no record
  satisfies. At the top of a query \<open>list\<close> takes the array for the operator object
  of a field, and its entries \<open>0\<close>, \<open>1\<close>, ... for unknown operators; among the
  operators of a field, \<open>$or\<close> and \<open>$and\<close> are themselves unknown to the
  \<open>switch\<close>.
\<close>

theorem or_and_not_evaluated:
  "yaml_list scalar_ops literal_yaml people ''people''
     (Some (emptyQuery\<lparr>filters := [(''age'', Num 30)]\<rparr>)) = Inr [Mapping bob] \<and>
   yaml_list scalar_ops literal_yaml people ''people''
     (Some (emptyQuery\<lparr>filters := [(''$or'', Arr [Obj [(''age'', Num 30)]])]\<rparr>))
     = Inr [Mapping ann, Mapping bob] \<and>
   yaml_list scalar_ops literal_yaml people ''people''
     (Some (emptyQuery\<lparr>filters := [(''age'', Obj [(''$or'', Arr [Obj [(''age'', Num 30)]])])]\<rparr>))
     = Inr [Mapping ann, Mapping bob] \<and>
   yaml_list scalar_ops literal_yaml people ''people''
     (Some (emptyQuery\<lparr>filters :=
        [(''$and'', Arr [Obj [(''age'', Num 30)], Obj [(''age'', Num 10)]])]\<rparr>))
     = Inr [Mapping ann, Mapping bob]"
proof -
  have plain: "filterRecords (matches scalar_ops [(''age'', Num 30)]) [Mapping ann, Mapping bob]
      = Inr [Mapping bob]"
    by (simp add: matches_def fieldHolds_def readProperty_def age_of_people)
  have array: "filterRecords (matches scalar_ops [(key, Arr subqueries)])
      [Mapping ann, Mapping bob] = Inr [Mapping ann, Mapping bob]" for key subqueries
    by (simp add: matches_def array_filter_holds)
  have field: "filterRecords (matches scalar_ops [(key, Obj [(''$or'', v)])])
      [Mapping ann, Mapping bob] = Inr [Mapping ann, Mapping bob]" for key v
    by (simp add: matches_def operator_filter_holds)
  show ?thesis
    by (simp only: list_people_filters plain array field simp_thms)
qed

text \<open>
  In general, an entry \<open>$or\<close> or \<open>$and\<close> of the filters whose value is an array
  constrains no mapping: the filters match it exactly when the other entries do. A
  field operator \<open>$or\<close> or \<open>$and\<close> holds of every value.
\<close>

theorem combinator_entries_dropped:
  "matches js ((''$or'', Arr alternatives) # (''$and'', Arr conjuncts) # rest) (Mapping r)
     = matches js rest (Mapping r) \<and>
   operatorHolds js ''$or'' recordValue opValue \<and>
   operatorHolds js ''$and'' recordValue opValue"
  by (simp add: matches_def array_filter_holds operatorHolds_def)

text \<open>
  The operators of a field are evaluated: \<open>{age: {$gte: 15}}\<close> selects \<open>bob\<close>, whose
  age is 30, and not \<open>ann\<close>, whose age is 10.
\<close>

theorem list_age_at_least:
  "yaml_list scalar_ops literal_yaml people ''people''
     (Some (emptyQuery\<lparr>filters := [(''age'', Obj [(''$gte'', Num 15)])]\<rparr>)) = Inr [Mapping bob]"
proof -
  have "filterRecords (matches scalar_ops [(''age'', Obj [(''$gte'', Num 15)])])
      [Mapping ann, Mapping bob] = Inr [Mapping bob]"
    by (simp add: matches_def fieldHolds_def readProperty_def age_of_people operatorHolds_def
        scalar_ops_def valueLessEq_def)
  then show ?thesis by (simp only: list_people_filters)
qed

text \<open>
  An empty record file parses to \<open>null\<close>, which \<open>find\<close> returns; a query with a
  filter then ends with a \<open>TypeError\<close>, thrown when the filter reads a property of
  that record.
\<close>

theorem filter_over_null_record:
  "yaml_find literal_yaml people ''items'' ''e0'' = Inr NullValue \<and>
   yaml_list scalar_ops literal_yaml people ''items''
     (Some (emptyQuery\<lparr>filters := [(''age'', Num 2)]\<rparr>)) = Inl TypeError"
proof -
  have read: "readAll literal_yaml people ''items'' [''x8.yaml'', ''e0.yaml'']
      = [Mapping [''age'' \<mapsto> Num 2], NullValue]"
    by (simp add: people_def store_defs endsWith_def js_slice_def)
  have "applyFilters scalar_ops (emptyQuery\<lparr>filters := [(''age'', Num 2)]\<rparr>)
      [Mapping [''age'' \<mapsto> Num 2], NullValue] = Inl TypeError"
    by (simp add: applyFilters_def emptyQuery_def matches_def fieldHolds_def readProperty_def
        propertyOf_def)
  with read show ?thesis
    by (simp add: yaml_list_def yaml_find_def people_def store_defs)
qed

section \<open>The write gate serializes\<close>

lemma runAll_invariant:
  assumes "\<forall>s. \<exists>v. promise m s = (Fulfilled v, g s)"
  shows "(\<forall>k < length fns. \<forall>s.
            (fst (runAll m fns) ! k) s = (fns ! k) () (settledStore (g s) (take k fns))) \<and>
         (\<forall>s. \<exists>v. promise (snd (runAll m fns)) s = (Fulfilled v, settledStore (g s) fns))"
  using assms
proof (induction fns arbitrary: m g)
  case Nil
  then show ?case by simp
next
  case (Cons fn fns)
  obtain result m' where r: "run m fn = (result, m')" by (cases "run m fn")
  have result: "result s = fn () (g s)" for s
  proof -
    from Cons.prems obtain v where "promise m s = (Fulfilled v, g s)" by blast
    with r show ?thesis by (auto simp: run_def promiseThen_def Let_def)
  qed
  have tail: "\<forall>s. \<exists>v. promise m' s = (Fulfilled v, snd (fn () (g s)))"
  proof
    fix s
    from Cons.prems obtain v where "promise m s = (Fulfilled v, g s)" by blast
    with r show "\<exists>v. promise m' s = (Fulfilled v, snd (fn () (g s)))"
      by (cases "fn () (g s)")
        (auto simp: run_def promiseThen_def promiseCatch_def Let_def split: settled.splits)
  qed
  note IH = Cons.IH[OF tail]
  obtain results m'' where ra: "runAll m' fns = (results, m'')" by (cases "runAll m' fns")
  have whole: "runAll m (fn # fns) = (result # results, m'')"
    using r ra by simp
  show ?case
  proof (intro conjI allI impI)
    fix k s
    assume "k < length (fn # fns)"
    then show "(fst (runAll m (fn # fns)) ! k) s
        = ((fn # fns) ! k) () (settledStore (g s) (take k (fn # fns)))"
      using IH ra whole result by (cases k) auto
  next
    fix s
    show "\<exists>v. promise (snd (runAll m (fn # fns))) s
        = (Fulfilled v, settledStore (g s) (fn # fns))"
      using IH ra whole by auto
  qed
qed

text \<open>
  C6. Let the operations \<open>fns\<close> be scheduled, in this order, on a new gate, and let
  the store be \<open>s\<close> when the chain starts. The handle that \<open>run\<close> returned for the
  operation number \<open>k\<close> settles with the outcome of that operation, run on the
  store as it is once each operation scheduled before it has run until it settled,
  whether fulfilled or rejected: an earlier rejection neither keeps the operation
  from running nor shows in its handle. The promise the gate keeps is never
  rejected, and is fulfilled once all the operations have settled.
\<close>

theorem gate_serializes:
  assumes "k < length fns"
  shows "(fst (runAll newMutex fns) ! k) s = (fns ! k) () (settledStore s (take k fns)) \<and>
         (\<exists>v. promise (snd (runAll newMutex fns)) s = (Fulfilled v, settledStore s fns))"
proof -
  have "\<forall>s. \<exists>v. promise (newMutex :: ('a, 'b, 'c) mutex) s = (Fulfilled v, s)"
    by (simp add: newMutex_def promiseResolve_def)
  from runAll_invariant[OF this, of fns] assms show ?thesis by blast
qed

text \<open>
  The theorem at the three operations of \<open>threeWrites\<close>: the second handle is
  rejected after the first write, the third is fulfilled after both.
\<close>

theorem gate_serializes_witness:
  "(fst (runAll newMutex threeWrites) ! 1) [] = (Rejected ''disk full'', [1, 2]) \<and>
   (fst (runAll newMutex threeWrites) ! 2) [] = (Fulfilled 3, [1, 2, 3])"
proof -
  have len: "1 < length threeWrites" "2 < length threeWrites"
    by (simp_all add: threeWrites_def)
  from gate_serializes [OF len(1), of "[]"] gate_serializes [OF len(2), of "[]"]
  show ?thesis
    by (simp add: threeWrites_def)
qed

end
